theory Spec2Isabelle
  imports Main "HOL-Library.Sublist"
begin

section \<open>Python strings\<close>

text \<open>
  A Python \<open>str\<close> is modelled as a \<open>string\<close>: each \<open>char\<close> stands for the code
  point of the same number, so the model covers the strings whose code points lie
  below 256.
\<close>

definition isspace :: "char \<Rightarrow> bool" where
  \<comment> \<open>\<open>str.isspace\<close> on one character: the Unicode white space below 256.\<close>
  "isspace c \<longleftrightarrow> of_char c \<in> {9, 10, 11, 12, 13, 28, 29, 30, 31, 32, 133, 160 :: nat}"

definition lstrip :: "string \<Rightarrow> string" where
  "lstrip s = dropWhile isspace s"

definition rstrip :: "string \<Rightarrow> string" where
  "rstrip s = rev (dropWhile isspace (rev s))"

definition strip :: "string \<Rightarrow> string" where
  \<comment> \<open>\<open>str.strip()\<close> without argument removes white space at both ends.\<close>
  "strip s = rstrip (lstrip s)"

fun join :: "string \<Rightarrow> string list \<Rightarrow> string" where
  \<comment> \<open>\<open>sep.join(xs)\<close>\<close>
  "join sep [] = []"
| "join sep [x] = x"
| "join sep (x # y # ys) = x @ sep @ join sep (y # ys)"

definition replace :: "char \<Rightarrow> string \<Rightarrow> string \<Rightarrow> string" where
  \<comment> \<open>\<open>s.replace(old, new)\<close> for a pattern \<open>old\<close> of one character.\<close>
  "replace old new s = concat (map (\<lambda>c. if c = old then new else [c]) s)"

definition digit :: "nat \<Rightarrow> char" where
  "digit d = char_of (48 + d)"

fun str_nat :: "nat \<Rightarrow> string" where
  "str_nat n = (if n < 10 then [digit n] else str_nat (n div 10) @ [digit (n mod 10)])"

declare str_nat.simps [simp del]

definition str_int :: "int \<Rightarrow> string" where
  \<comment> \<open>\<open>str(i)\<close>, which is what \<open>'{}'.format(i)\<close> inserts for an \<open>int\<close>.\<close>
  "str_int i = (if i < 0 then CHR ''-'' # str_nat (nat (- i)) else str_nat (nat i))"

definition hexdigit :: "nat \<Rightarrow> char" where
  "hexdigit d = (if d < 10 then char_of (48 + d) else char_of (87 + d))"

definition isprintable :: "char \<Rightarrow> bool" where
  \<comment> \<open>\<open>str.isprintable\<close> on one character, for the code points below 256.\<close>
  "isprintable c \<longleftrightarrow>
     (let n = (of_char c :: nat) in (32 \<le> n \<and> n < 127) \<or> (161 \<le> n \<and> n \<noteq> 173))"

definition repr_char :: "char \<Rightarrow> char \<Rightarrow> string" where
  "repr_char quote c =
     (if c = quote \<or> c = CHR 0x5C then [CHR 0x5C, c]
      else if c = CHR 0x09 then [CHR 0x5C, CHR ''t'']
      else if c = CHR 0x0A then [CHR 0x5C, CHR ''n'']
      else if c = CHR 0x0D then [CHR 0x5C, CHR ''r'']
      else if isprintable c then [c]
      else [CHR 0x5C, CHR ''x'', hexdigit (of_char c div 16), hexdigit (of_char c mod 16)])"

definition repr :: "string \<Rightarrow> string" where
  \<comment> \<open>\<open>repr(s)\<close>, which is what the conversion \<open>!r\<close> inserts: single quotes, unless
      the string holds a single quote and no double quote.\<close>
  "repr s =
     (let quote = (if CHR 0x27 \<in> set s \<and> CHR 0x22 \<notin> set s then CHR 0x22 else CHR 0x27)
      in [quote] @ concat (map (repr_char quote) s) @ [quote])"

definition rfind :: "char \<Rightarrow> string \<Rightarrow> int" where
  \<comment> \<open>\<open>s.rfind(c)\<close>: the highest index of \<open>c\<close>, or -1.\<close>
  "rfind c s = (if c \<in> set s then int (length s) - 1 - int (length (takeWhile (\<lambda>x. x \<noteq> c) (rev s))) else - 1)"

definition path_split :: "string \<Rightarrow> string \<times> string" where
  \<comment> \<open>\<open>os.path.split\<close> (POSIX).\<close>
  "path_split p =
     (let i = nat (rfind CHR ''/'' p + 1);
          head = take i p;
          tail = drop i p
      in (if head \<noteq> [] \<and> head \<noteq> replicate (length head) CHR ''/''
          then rev (dropWhile (\<lambda>c. c = CHR ''/'') (rev head)) else head, tail))"

section \<open>Features\<close>

definition latex_url :: string where
  "latex_url = ''https://www.latex-project.org/''"

definition latex_spkg :: string where
  "latex_spkg = ''texlive''"

text \<open>
  The objects of the module: an instance of \<open>LaTeX\<close> is an \<open>Executable\<close> whose
  executable is its name; an instance of \<open>TeXFile\<close> is a \<open>StaticFile\<close> and a
  \<open>JoinFeature\<close>, with a name, a file name and the joined features.
\<close>

datatype feature =
    LaTeX (name: string)
  | TeXFile_obj (name: string) (filename: string) (features: "feature list")

definition executable :: "feature \<Rightarrow> string" where
  "executable self = name self"

definition latex :: feature where
  "latex = LaTeX ''latex''"

definition pdflatex :: feature where
  "pdflatex = LaTeX ''pdflatex''"

definition xelatex :: feature where
  "xelatex = LaTeX ''xelatex''"

definition lualatex :: feature where
  "lualatex = LaTeX ''lualatex''"

definition TeXFile :: "string \<Rightarrow> string \<Rightarrow> feature" where
  \<comment> \<open>\<open>TeXFile.__init__\<close>: the join of \<open>[pdflatex()]\<close> and the static file.\<close>
  "TeXFile n f = TeXFile_obj n f [pdflatex]"

definition LaTeXPackage :: "string \<Rightarrow> feature" where
  \<comment> \<open>\<open>LaTeXPackage.__classcall__\<close>\<close>
  "LaTeXPackage package_name =
     TeXFile (replace CHR ''-'' ''_'' (''latex_package_'' @ package_name)) (package_name @ ''.sty'')"

definition all_features :: "feature list" where
  "all_features = [latex, pdflatex, xelatex, lualatex, LaTeXPackage ''tkz-graph'']"

section \<open>The environment and the state of the process\<close>

record CompletedProcess =
  returncode :: int
  stdout :: string

text \<open>
  The environment is what the process cannot see except by asking: which programs the
  search path holds, what a started program returns (\<open>None\<close> when it cannot be
  started; a program killed by signal \<open>n\<close> has the return code \<open>- n\<close>), and the
  path of the next scratch file.
\<close>

record env =
  which :: "string \<Rightarrow> bool"
  exec :: "string list \<Rightarrow> CompletedProcess option"
  shell :: "string \<Rightarrow> string \<Rightarrow> CompletedProcess option"
  mkstemp :: "nat \<Rightarrow> string"

datatype event =
    Which string
  | Exec "string list"
  | Shell string string

datatype error =
    FeatureNotPresentError feature string
  | CalledProcessError int
  | OSError

record FeatureTestResult =
  feature :: feature
  is_present :: bool
  reason :: "string option"

record state =
  cache :: "string \<rightharpoonup> FeatureTestResult"
  trace :: "event list"
  files :: "string \<rightharpoonup> string"
  handles :: "string list"
  tmp_count :: nat

definition log :: "event \<Rightarrow> state \<Rightarrow> state" where
  "log e s = s\<lparr>trace := trace s @ [e]\<rparr>"

definition run :: "env \<Rightarrow> string list \<Rightarrow> bool \<Rightarrow> state \<Rightarrow> (error + CompletedProcess) \<times> state" where
  \<comment> \<open>\<open>subprocess.run(args, check=check)\<close>\<close>
  "run env args check s =
     (case exec env args of
        None \<Rightarrow> (Inl OSError, log (Exec args) s)
      | Some proc \<Rightarrow>
          if check \<and> returncode proc \<noteq> 0 then (Inl (CalledProcessError (returncode proc)), log (Exec args) s)
          else (Inr proc, log (Exec args) s))"

definition run_shell :: "env \<Rightarrow> string \<Rightarrow> string \<Rightarrow> state \<Rightarrow> (error + CompletedProcess) \<times> state" where
  \<comment> \<open>\<open>subprocess.run(cmd, shell=True, cwd=cwd)\<close>\<close>
  "run_shell env cmd cwd s =
     (case shell env cmd cwd of
        None \<Rightarrow> (Inl OSError, log (Shell cmd cwd) s)
      | Some proc \<Rightarrow> (Inr proc, log (Shell cmd cwd) s))"

definition tmp_filename :: "env \<Rightarrow> string \<Rightarrow> state \<Rightarrow> string \<times> state" where
  \<comment> \<open>Modelled from the spec: \<open>tmp_filename\<close> of \<open>sage.misc.temporary_file\<close>, a
      library primitive that creates a fresh, empty scratch file and returns its path.\<close>
  "tmp_filename env ext s =
     (let p = mkstemp env (tmp_count s) @ ext
      in (p, s\<lparr>files := (files s)(p \<mapsto> []), tmp_count := Suc (tmp_count s)\<rparr>))"

definition open_w :: "string \<Rightarrow> state \<Rightarrow> state" where
  \<comment> \<open>\<open>open(p, 'w')\<close>: the file is created or truncated, and a handle is open.\<close>
  "open_w p s = s\<lparr>files := (files s)(p \<mapsto> []), handles := p # handles s\<rparr>"

definition file_write :: "string \<Rightarrow> string \<Rightarrow> state \<Rightarrow> state" where
  "file_write p content s =
     s\<lparr>files := (files s)(p \<mapsto> (case files s p of None \<Rightarrow> [] | Some old \<Rightarrow> old) @ content)\<rparr>"

definition close :: "string \<Rightarrow> state \<Rightarrow> state" where
  "close p s = s\<lparr>handles := remove1 p (handles s)\<rparr>"

section \<open>The operations of the module\<close>

definition sample_lines :: "string list" where
  "sample_lines =
     [[CHR 0x5C] @ ''documentclass{article}'',
      [CHR 0x5C] @ ''begin{document}'',
      ''$'' @ [CHR 0x5C] @ ''alpha+2$'',
      [CHR 0x5C] @ ''end{document}'']"

definition LaTeX_is_functional :: "env \<Rightarrow> feature \<Rightarrow> state \<Rightarrow> (error + FeatureTestResult) \<times> state" where
  \<comment> \<open>\<open>LaTeX.is_functional\<close>\<close>
  "LaTeX_is_functional env self s =
     (let content = join [CHR 0x0A] sample_lines;
          (base_filename_tex, s1) = tmp_filename env ''.tex'' s;
          s2 = close base_filename_tex (file_write base_filename_tex content (open_w base_filename_tex s1));
          (base, filename_tex) = path_split base_filename_tex;
          cmd = join '' '' [name self, ''-interaction=nonstopmode'', filename_tex]
      in case run_shell env cmd base s2 of
           (Inl e, s3) \<Rightarrow> (Inl e, s3)
         | (Inr result, s3) \<Rightarrow>
             if returncode result = 0
             then (Inr \<lparr>feature = self, is_present = True, reason = None\<rparr>, s3)
             else (Inr \<lparr>feature = self, is_present = False,
                        reason = Some (''Running latex on a sample file returned non-zero exit status ''
                                       @ str_int (returncode result))\<rparr>, s3))"

definition TeXFile_absolute_filename :: "env \<Rightarrow> feature \<Rightarrow> state \<Rightarrow> (error + string) \<times> state" where
  \<comment> \<open>\<open>TeXFile.absolute_filename\<close>\<close>
  "TeXFile_absolute_filename env self s =
     (case run env [''kpsewhich'', filename self] True s of
        (Inr proc, s') \<Rightarrow> (Inr (strip (stdout proc)), s')
      | (Inl (CalledProcessError rc), s') \<Rightarrow>
          (Inl (FeatureNotPresentError self (repr (filename self) @ '' not found by kpsewhich'')), s')
      | (Inl e, s') \<Rightarrow> (Inl e, s'))"

definition Executable__is_present :: "env \<Rightarrow> feature \<Rightarrow> state \<Rightarrow> (error + FeatureTestResult) \<times> state" where
  \<comment> \<open>Modelled from the spec: \<open>Executable._is_present\<close> of \<open>sage.features\<close>, the
      existence check of an executable probe: present iff the command is found on the
      search path, with no process started. The spec asks for a specific, non-empty
      reason on a negative result and fixes no wording; the wording here names the
      command and says that it was not found.\<close>
  "Executable__is_present env self s =
     (if which env (executable self)
      then (Inr \<lparr>feature = self, is_present = True, reason = None\<rparr>, log (Which (executable self)) s)
      else (Inr \<lparr>feature = self, is_present = False,
                 reason = Some (''Executable '' @ repr (executable self) @ '' not found on PATH.'')\<rparr>,
            log (Which (executable self)) s))"

definition StaticFile__is_present :: "env \<Rightarrow> feature \<Rightarrow> state \<Rightarrow> (error + FeatureTestResult) \<times> state" where
  \<comment> \<open>Modelled from the spec: \<open>StaticFile._is_present\<close> of \<open>sage.features\<close>, the
      existence check of a static-file probe: it asks for the absolute file name and
      turns the not-present signal into a negative result with the same reason. The spec
      names no other signal here, so any other error is passed on.\<close>
  "StaticFile__is_present env self s =
     (case TeXFile_absolute_filename env self s of
        (Inr abspath, s') \<Rightarrow> (Inr \<lparr>feature = self, is_present = True, reason = None\<rparr>, s')
      | (Inl (FeatureNotPresentError f r), s') \<Rightarrow>
          (Inr \<lparr>feature = self, is_present = False, reason = Some r\<rparr>, s')
      | (Inl e, s') \<Rightarrow> (Inl e, s'))"

text \<open>
  \<open>Feature_is_present\<close> is the public query \<open>is_present\<close>, \<open>Feature__is_present\<close>
  the method \<open>_is_present\<close> it dispatches to, and \<open>JoinFeature__is_present\<close> the
  loop of the join over its features. The equation of \<open>Feature__is_present\<close> for a
  \<open>TeXFile\<close> is the body of \<open>TeXFile._is_present\<close>, where
  \<open>super(TeXFile, self)\<close> is the \<open>StaticFile\<close>; the public query and the join are
  not in the module and follow the spec.
\<close>

fun Feature_is_present :: "env \<Rightarrow> feature \<Rightarrow> state \<Rightarrow> (error + FeatureTestResult) \<times> state"
  and Feature__is_present :: "env \<Rightarrow> feature \<Rightarrow> state \<Rightarrow> (error + FeatureTestResult) \<times> state"
  and JoinFeature__is_present :: "env \<Rightarrow> feature \<Rightarrow> feature list \<Rightarrow> state \<Rightarrow> (error + FeatureTestResult) \<times> state"
where
  \<comment> \<open>Modelled from the spec: \<open>Feature.is_present\<close> of \<open>sage.features\<close>, the cache
      in front of every existence check, keyed by the name of the probe.\<close>
  "Feature_is_present env self s =
     (case cache s (name self) of
        Some res \<Rightarrow> (Inr res, s)
      | None \<Rightarrow>
          (case Feature__is_present env self s of
             (Inl e, s') \<Rightarrow> (Inl e, s')
           | (Inr res, s') \<Rightarrow> (Inr res, s'\<lparr>cache := (cache s')(name self \<mapsto> res)\<rparr>)))"
| "Feature__is_present env (LaTeX n) s = Executable__is_present env (LaTeX n) s"
| "Feature__is_present env (TeXFile_obj n f fs) s =
     (case JoinFeature__is_present env (TeXFile_obj n f fs) fs s of
        (Inl e, s') \<Rightarrow> (Inl e, s')
      | (Inr test, s') \<Rightarrow>
          if \<not> is_present test then (Inr test, s')
          else StaticFile__is_present env (TeXFile_obj n f fs) s')"
  \<comment> \<open>Modelled from the spec: \<open>JoinFeature._is_present\<close> of
      \<open>sage.features.join_feature\<close>, the composite check: the members are asked in the
      declared order, the first negative result ends the loop and is the result.\<close>
| "JoinFeature__is_present env self [] s = (Inr \<lparr>feature = self, is_present = True, reason = None\<rparr>, s)"
| "JoinFeature__is_present env self (f # fs) s =
     (case Feature_is_present env f s of
        (Inl e, s') \<Rightarrow> (Inl e, s')
      | (Inr test, s') \<Rightarrow>
          if \<not> is_present test then (Inr test, s')
          else JoinFeature__is_present env self fs s')"

section \<open>Names used in the statements\<close>

text \<open>
  The parts of \<open>LaTeX.is_functional\<close> by name: the scratch file \<open>tmp_filename\<close>
  returns in a state, the document written to it, the command line and the directory
  of the shell call, and the state the call leaves.
\<close>

definition scratch_file :: "env \<Rightarrow> state \<Rightarrow> string" where
  "scratch_file env s = mkstemp env (tmp_count s) @ ''.tex''"

definition sample_content :: string where
  "sample_content = join [CHR 0x0A] sample_lines"

definition functional_cmd :: "env \<Rightarrow> feature \<Rightarrow> state \<Rightarrow> string" where
  "functional_cmd env self s =
     join '' '' [name self, ''-interaction=nonstopmode'', snd (path_split (scratch_file env s))]"

definition functional_cwd :: "env \<Rightarrow> state \<Rightarrow> string" where
  "functional_cwd env s = fst (path_split (scratch_file env s))"

definition after_functional :: "env \<Rightarrow> feature \<Rightarrow> state \<Rightarrow> state" where
  "after_functional env self s =
     s\<lparr>files := (files s)(scratch_file env s \<mapsto> sample_content),
       tmp_count := Suc (tmp_count s),
       trace := trace s @ [Shell (functional_cmd env self s) (functional_cwd env s)]\<rparr>"

text \<open>
  The reason of \<open>TeXFile.absolute_filename\<close>, and the file names \<open>repr\<close> only
  puts between single quotes.
\<close>

definition not_found_reason :: "feature \<Rightarrow> string" where
  "not_found_reason self = repr (filename self) @ '' not found by kpsewhich''"

definition plain :: "string \<Rightarrow> bool" where
  "plain s \<longleftrightarrow> list_all (\<lambda>c. isprintable c \<and> c \<noteq> CHR 0x27 \<and> c \<noteq> CHR 0x5C) s"

text \<open>
  The characters of a decimal numeral and the number they denote.
\<close>

definition digits :: "char set" where
  "digits = digit ` {..<10}"

definition val_digits :: "string \<Rightarrow> nat" where
  "val_digits ds = foldl (\<lambda>a c. 10 * a + (of_char c - 48)) 0 ds"

declare Feature_is_present.simps [simp del]

section \<open>Concrete environments\<close>

text \<open>
  A fresh process; a machine with nothing installed, where the shell answers 127; a
  machine where everything works; the same with a resolver that prints a blank before
  the path, with only \<open>kpsewhich\<close> on the search path, and with a resolver killed by
  signal 11.
\<close>

definition s0 :: state where
  "s0 = \<lparr>cache = Map.empty, trace = [], files = Map.empty, handles = [], tmp_count = 0\<rparr>"

definition env127 :: env where
  "env127 = \<lparr>which = (\<lambda>c. False), exec = (\<lambda>args. None),
             shell = (\<lambda>cmd cwd. Some \<lparr>returncode = 127, stdout = []\<rparr>),
             mkstemp = (\<lambda>n. ''/tmp/tmp_'' @ str_nat n)\<rparr>"

definition env_ok :: env where
  "env_ok = \<lparr>which = (\<lambda>c. True), exec = (\<lambda>args. Some \<lparr>returncode = 0, stdout = ''/texmf/tkz-graph.sty\<newline>''\<rparr>),
             shell = (\<lambda>cmd cwd. Some \<lparr>returncode = 0, stdout = []\<rparr>),
             mkstemp = (\<lambda>n. ''/tmp/tmp_'' @ str_nat n)\<rparr>"

definition env_padded :: env where
  "env_padded = env_ok\<lparr>exec := (\<lambda>args. Some \<lparr>returncode = 0, stdout = '' /texmf/a.sty\<newline>''\<rparr>)\<rparr>"

definition env_kpse_only :: env where
  "env_kpse_only = env_ok\<lparr>which := (\<lambda>c. c = ''kpsewhich'')\<rparr>"

definition env_killed :: env where
  "env_killed = env_ok\<lparr>exec := (\<lambda>args. Some \<lparr>returncode = - 11, stdout = []\<rparr>)\<rparr>"

section \<open>Strings\<close>

lemma of_char_digit: "d < 10 \<Longrightarrow> (of_char (digit d) :: nat) = 48 + d"
  by (simp add: digit_def)

lemma val_digits_str_nat: "val_digits (str_nat n) = n"
proof (induction n rule: str_nat.induct)
  case (1 n)
  show ?case
  proof (cases "n < 10")
    case True
    then show ?thesis
      by (subst str_nat.simps) (simp add: val_digits_def of_char_digit)
  next
    case False
    with 1 have "val_digits (str_nat (n div 10)) = n div 10" by simp
    with False show ?thesis
      by (subst str_nat.simps) (simp add: val_digits_def of_char_digit)
  qed
qed

lemma str_nat_inject: "str_nat m = str_nat n \<Longrightarrow> m = n"
  by (metis val_digits_str_nat)

lemma set_str_nat: "set (str_nat n) \<subseteq> digits"
proof (induction n rule: str_nat.induct)
  case (1 n)
  show ?case
  proof (cases "n < 10")
    case True
    then show ?thesis
      by (subst str_nat.simps) (simp add: digits_def)
  next
    case False
    with 1 have "set (str_nat (n div 10)) \<subseteq> digits" by simp
    moreover have "digit (n mod 10) \<in> digits" by (simp add: digits_def)
    ultimately show ?thesis using False
      by (subst str_nat.simps) simp
  qed
qed

lemma str_nat_not_Nil: "str_nat n \<noteq> []"
  by (subst str_nat.simps) simp

lemma digits_chars: "c \<in> digits \<Longrightarrow> 48 \<le> (of_char c :: nat) \<and> (of_char c :: nat) < 58"
  by (auto simp: digits_def of_char_digit)

lemma set_str_int: "c \<in> set (str_int i) \<Longrightarrow> c = CHR ''-'' \<or> c \<in> digits"
  using set_str_nat by (auto simp: str_int_def split: if_splits)

lemma str_int_inject: "str_int i = str_int j \<Longrightarrow> i = j"
proof -
  assume eq: "str_int i = str_int j"
  have nd: "CHR ''-'' \<notin> digits"
    using digits_chars [of "CHR ''-''"] by auto
  have hd: "hd (str_nat n) \<in> digits" for n
    using set_str_nat [of n] str_nat_not_Nil [of n] by (cases "str_nat n") auto
  have ne: "CHR ''-'' # xs \<noteq> str_nat n" for xs n
    using hd [of n] nd by (cases "str_nat n") auto
  show "i = j"
  proof (cases "i < 0"; cases "j < 0")
    assume "i < 0" "j < 0"
    with eq have "nat (- i) = nat (- j)" by (simp add: str_int_def str_nat_inject)
    with \<open>i < 0\<close> \<open>j < 0\<close> show ?thesis by simp
  next
    assume "i < 0" "\<not> j < 0"
    with eq ne show ?thesis by (simp add: str_int_def)
  next
    assume "\<not> i < 0" "j < 0"
    with eq ne [of "str_nat (nat (- j))" "nat i"] show ?thesis by (simp add: str_int_def)
  next
    assume "\<not> i < 0" "\<not> j < 0"
    with eq have "nat i = nat j" by (simp add: str_int_def str_nat_inject)
    with \<open>\<not> i < 0\<close> \<open>\<not> j < 0\<close> show ?thesis by simp
  qed
qed

lemma not_sublist_append_disjoint:
  assumes "xs \<noteq> []" and "set xs \<inter> set zs = {}" and "\<not> sublist xs ys"
  shows "\<not> sublist xs (ys @ zs)"
proof
  assume "sublist xs (ys @ zs)"
  then consider "sublist xs ys" | "sublist xs zs"
    | xs1 xs2 where "xs = xs1 @ xs2" "suffix xs1 ys" "prefix xs2 zs"
    unfolding sublist_append by blast
  then show False
  proof cases
    case 1
    with assms(3) show False ..
  next
    case 2
    then have "set xs \<subseteq> set zs" by (rule set_mono_sublist)
    with assms(1,2) show False by (cases xs) auto
  next
    case 3
    show False
    proof (cases xs2)
      case Nil
      with 3 have "suffix xs ys" by simp
      then have "sublist xs ys" by (rule suffix_imp_sublist)
      with assms(3) show False ..
    next
      case (Cons x xs2')
      with 3 have "x \<in> set zs" "x \<in> set xs"
        by (auto dest: set_mono_prefix)
      with assms(2) show False by auto
    qed
  qed
qed

lemma functional_reason_no_not_found:
  "\<not> sublist ''not found''
       (''Running latex on a sample file returned non-zero exit status '' @ str_int rc)"
proof (rule not_sublist_append_disjoint)
  show "''not found'' \<noteq> []" by simp
  show "set ''not found'' \<inter> set (str_int rc) = {}"
    using set_str_int [of _ rc] digits_chars by fastforce
  show "\<not> sublist ''not found'' ''Running latex on a sample file returned non-zero exit status ''"
    by (simp add: sublist_Cons_right)
qed

lemma repr_plain: "plain s \<Longrightarrow> repr s = [CHR 0x27] @ s @ [CHR 0x27]"
proof -
  assume p: "plain s"
  then have q: "CHR 0x27 \<notin> set s"
    by (auto simp: plain_def list_all_iff)
  have "concat (map (repr_char CHR 0x27) s) = s" using p
  proof (induction s)
    case Nil
    then show ?case by simp
  next
    case (Cons c cs)
    then have "repr_char CHR 0x27 c = [c]"
      by (auto simp: plain_def repr_char_def isprintable_def Let_def)
    with Cons show ?case by (simp add: plain_def)
  qed
  with q show ?thesis by (simp add: repr_def Let_def)
qed

lemma replace_char_map: "replace old [new] s = map (\<lambda>c. if c = old then new else c) s"
  by (induction s) (simp_all add: replace_def)

lemma strip_padded: "strip ('' /texmf/a.sty\<newline>'') = ''/texmf/a.sty''"
  by (simp add: strip_def lstrip_def rstrip_def isspace_def)

lemma rstrip_padded: "rstrip ('' /texmf/a.sty\<newline>'') = '' /texmf/a.sty''"
  by (simp add: rstrip_def isspace_def)

lemma strip_tkz: "strip ''/texmf/tkz-graph.sty\<newline>'' = ''/texmf/tkz-graph.sty''"
  by (simp add: strip_def lstrip_def rstrip_def isspace_def)

lemma tmp_0: "str_nat 0 = ''0''"
  by code_simp

lemma path_split_tmp_0: "path_split ''/tmp/tmp_0.tex'' = (''/tmp'', ''tmp_0.tex'')"
  by (simp add: path_split_def rfind_def Let_def)

section \<open>Construction and enumeration\<close>

text \<open>
  C8: the enumeration of the module is a list of exactly five features: the executables
  \<open>latex\<close>, \<open>pdflatex\<close>, \<open>xelatex\<close> and \<open>lualatex\<close>, in this order, and then
  the package feature of \<open>tkz-graph\<close>.
\<close>

theorem all_features_enumeration:
  "all_features =
     [LaTeX ''latex'', LaTeX ''pdflatex'', LaTeX ''xelatex'', LaTeX ''lualatex'',
      TeXFile_obj ''latex_package_tkz_graph'' ''tkz-graph.sty'' [LaTeX ''pdflatex'']]
   \<and> length all_features = 5
   \<and> map name all_features = [''latex'', ''pdflatex'', ''xelatex'', ''lualatex'', ''latex_package_tkz_graph'']
   \<and> take 4 all_features = [latex, pdflatex, xelatex, lualatex]
   \<and> drop 4 all_features = [LaTeXPackage ''tkz-graph'']"
  by (simp add: all_features_def latex_def pdflatex_def xelatex_def lualatex_def
        LaTeXPackage_def TeXFile_def replace_def)

text \<open>
  C7: the package feature is a function of the package identifier alone, so two
  constructions from one identifier give the same feature with the same name, and
  different identifiers give different features. The name is \<open>latex_package_\<close>
  followed by the identifier with every \<open>-\<close> turned into \<open>_\<close>, and the file looked
  up is the identifier followed by \<open>.sty\<close>.
\<close>

theorem LaTeXPackage_name_derivation:
  "LaTeXPackage p =
     TeXFile_obj (''latex_package_'' @ map (\<lambda>c. if c = CHR ''-'' then CHR ''_'' else c) p)
                 (p @ ''.sty'') [pdflatex]
   \<and> name (LaTeXPackage p) = replace CHR ''-'' ''_'' (''latex_package_'' @ p)
   \<and> CHR ''-'' \<notin> set (name (LaTeXPackage p))
   \<and> filename (LaTeXPackage p) = p @ ''.sty''
   \<and> (LaTeXPackage p = LaTeXPackage q \<longleftrightarrow> p = q)"
proof -
  let ?n = "''latex_package_'' @ map (\<lambda>c. if c = CHR ''-'' then CHR ''_'' else c) p"
  have m: "replace CHR ''-'' ''_'' (''latex_package_'' @ p) = ?n"
    by (simp add: replace_char_map)
  have obj: "LaTeXPackage p = TeXFile_obj ?n (p @ ''.sty'') [pdflatex]"
    unfolding LaTeXPackage_def TeXFile_def m ..
  have nm: "name (LaTeXPackage p) = replace CHR ''-'' ''_'' (''latex_package_'' @ p)"
    unfolding LaTeXPackage_def TeXFile_def by (rule feature.sel)
  have d: "CHR ''-'' \<notin> set (name (LaTeXPackage p))"
    unfolding nm m by auto
  have fn: "filename (LaTeXPackage r) = r @ ''.sty''" for r
    unfolding LaTeXPackage_def TeXFile_def by (rule feature.sel)
  have inj: "LaTeXPackage p = LaTeXPackage q \<longleftrightarrow> p = q"
  proof
    assume "LaTeXPackage p = LaTeXPackage q"
    then have "filename (LaTeXPackage p) = filename (LaTeXPackage q)" by (rule arg_cong)
    then show "p = q" unfolding fn by simp
  qed simp
  from obj nm d fn [of p] inj show ?thesis by blast
qed

section \<open>The functional check\<close>

lemma LaTeX_is_functional_eq:
  "LaTeX_is_functional env self s =
     (case shell env (functional_cmd env self s) (functional_cwd env s) of
        None \<Rightarrow> (Inl OSError, after_functional env self s)
      | Some result \<Rightarrow>
          if returncode result = 0
          then (Inr \<lparr>feature = self, is_present = True, reason = None\<rparr>, after_functional env self s)
          else (Inr \<lparr>feature = self, is_present = False,
                     reason = Some (''Running latex on a sample file returned non-zero exit status ''
                                    @ str_int (returncode result))\<rparr>, after_functional env self s))"
  unfolding LaTeX_is_functional_def tmp_filename_def open_w_def file_write_def close_def
    run_shell_def log_def Let_def after_functional_def scratch_file_def sample_content_def
    functional_cmd_def functional_cwd_def
  by (simp split: option.split prod.split)

lemma fst_LaTeX_is_functional:
  "shell env (functional_cmd env self s) (functional_cwd env s) = Some proc \<Longrightarrow>
   fst (LaTeX_is_functional env self s) =
     (if returncode proc = 0 then Inr \<lparr>feature = self, is_present = True, reason = None\<rparr>
      else Inr \<lparr>feature = self, is_present = False,
                reason = Some (''Running latex on a sample file returned non-zero exit status ''
                               @ str_int (returncode proc))\<rparr>)"
  by (simp add: LaTeX_is_functional_eq)

lemma snd_LaTeX_is_functional:
  "snd (LaTeX_is_functional env self s) = after_functional env self s"
  by (simp add: LaTeX_is_functional_eq split: option.split)

lemma Executable_reason:
  "fst (Executable__is_present env f s) = Inr r \<Longrightarrow>
   reason r = None \<or> reason r = Some (''Executable '' @ repr (executable f) @ '' not found on PATH.'')"
  by (auto simp: Executable__is_present_def split: if_splits)

lemma functional_env127:
  "LaTeX_is_functional env127 latex s0 =
     (Inr \<lparr>feature = latex, is_present = False,
            reason = Some ''Running latex on a sample file returned non-zero exit status 127''\<rparr>,
      s0\<lparr>files := [''/tmp/tmp_0.tex'' \<mapsto> sample_content], tmp_count := 1,
         trace := [Shell ''latex -interaction=nonstopmode tmp_0.tex'' ''/tmp'']\<rparr>)"
proof -
  have n: "str_int 127 = ''127''" by code_simp
  show ?thesis
    by (simp add: LaTeX_is_functional_eq after_functional_def functional_cmd_def
          functional_cwd_def scratch_file_def env127_def s0_def tmp_0 path_split_tmp_0 n latex_def)
qed

lemma functional_env_ok:
  "LaTeX_is_functional env_ok latex s0 =
     (Inr \<lparr>feature = latex, is_present = True, reason = None\<rparr>,
      s0\<lparr>files := [''/tmp/tmp_0.tex'' \<mapsto> sample_content], tmp_count := 1,
         trace := [Shell ''latex -interaction=nonstopmode tmp_0.tex'' ''/tmp'']\<rparr>)"
  by (simp add: LaTeX_is_functional_eq after_functional_def functional_cmd_def
        functional_cwd_def scratch_file_def env_ok_def s0_def tmp_0 path_split_tmp_0 latex_def)

lemma present_env127:
  "Feature_is_present env127 latex s0 =
     (Inr \<lparr>feature = latex, is_present = False,
            reason = Some (''Executable '' @ repr ''latex'' @ '' not found on PATH.'')\<rparr>,
      s0\<lparr>trace := [Which ''latex''],
         cache := [''latex'' \<mapsto> \<lparr>feature = latex, is_present = False,
            reason = Some (''Executable '' @ repr ''latex'' @ '' not found on PATH.'')\<rparr>]\<rparr>)"
  by (simp add: Feature_is_present.simps Executable__is_present_def executable_def env127_def
        s0_def latex_def log_def)

text \<open>
  C3: when the shell returns from the functional check, \<open>is_functional\<close> gives the
  positive result (present, no reason) exactly when the exit status is zero. On any
  other exit status the result is negative and its reason is the fixed sentence followed
  by the exit status in decimal. That reason is never the reason of a negative
  \<open>Executable._is_present\<close>, it does not contain the words \<open>not found\<close>, and two
  exit statuses with the same reason are the same.
\<close>

theorem LaTeX_is_functional_exit_status:
  assumes "shell env (functional_cmd env self s) (functional_cwd env s) = Some proc"
  shows "(returncode proc = 0 \<longrightarrow>
            fst (LaTeX_is_functional env self s)
              = Inr \<lparr>feature = self, is_present = True, reason = None\<rparr>)
       \<and> (returncode proc \<noteq> 0 \<longrightarrow>
            fst (LaTeX_is_functional env self s)
              = Inr \<lparr>feature = self, is_present = False,
                     reason = Some (''Running latex on a sample file returned non-zero exit status ''
                                    @ str_int (returncode proc))\<rparr>)
       \<and> ((\<exists>r. fst (LaTeX_is_functional env self s) = Inr r \<and> is_present r)
            \<longleftrightarrow> returncode proc = 0)
       \<and> (\<forall>env' f s' r'. fst (Executable__is_present env' f s') = Inr r' \<longrightarrow>
            reason r' \<noteq> Some (''Running latex on a sample file returned non-zero exit status ''
                               @ str_int (returncode proc)))
       \<and> \<not> sublist ''not found''
             (''Running latex on a sample file returned non-zero exit status ''
              @ str_int (returncode proc))
       \<and> (\<forall>rc. ''Running latex on a sample file returned non-zero exit status '' @ str_int rc
                = ''Running latex on a sample file returned non-zero exit status ''
                  @ str_int (returncode proc)
              \<longrightarrow> rc = returncode proc)"
proof -
  note r = fst_LaTeX_is_functional [OF assms]
  have a: "returncode proc = 0 \<longrightarrow>
            fst (LaTeX_is_functional env self s)
              = Inr \<lparr>feature = self, is_present = True, reason = None\<rparr>"
    by (simp add: r)
  have b: "returncode proc \<noteq> 0 \<longrightarrow>
            fst (LaTeX_is_functional env self s)
              = Inr \<lparr>feature = self, is_present = False,
                     reason = Some (''Running latex on a sample file returned non-zero exit status ''
                                    @ str_int (returncode proc))\<rparr>"
    by (simp add: r)
  have c: "(\<exists>r. fst (LaTeX_is_functional env self s) = Inr r \<and> is_present r)
            \<longleftrightarrow> returncode proc = 0"
    by (auto simp: r)
  have d: "reason r' \<noteq> Some (''Running latex on a sample file returned non-zero exit status ''
                               @ str_int (returncode proc))"
    if "fst (Executable__is_present env' f s') = Inr r'" for env' f s' r'
    using Executable_reason [OF that] by auto
  have e: "rc = returncode proc"
    if "''Running latex on a sample file returned non-zero exit status '' @ str_int rc
          = ''Running latex on a sample file returned non-zero exit status ''
            @ str_int (returncode proc)" for rc
    using that unfolding same_append_eq by (rule str_int_inject)
  from a b c d e functional_reason_no_not_found [of "returncode proc"] show ?thesis
    by blast
qed

text \<open>
  The executable is missing and the shell answers 127: the two reasons side by side.
  Then a machine where the run succeeds.
\<close>

theorem LaTeX_is_functional_exit_status_witness:
  "shell env127 (functional_cmd env127 latex s0) (functional_cwd env127 s0)
     = Some \<lparr>returncode = 127, stdout = []\<rparr>
   \<and> fst (LaTeX_is_functional env127 latex s0)
     = Inr \<lparr>feature = latex, is_present = False,
            reason = Some ''Running latex on a sample file returned non-zero exit status 127''\<rparr>
   \<and> fst (Executable__is_present env127 latex s0)
     = Inr \<lparr>feature = latex, is_present = False,
            reason = Some (''Executable '' @ repr ''latex'' @ '' not found on PATH.'')\<rparr>
   \<and> shell env_ok (functional_cmd env_ok latex s0) (functional_cwd env_ok s0)
     = Some \<lparr>returncode = 0, stdout = []\<rparr>
   \<and> fst (LaTeX_is_functional env_ok latex s0)
     = Inr \<lparr>feature = latex, is_present = True, reason = None\<rparr>"
proof -
  have h: "shell env127 (functional_cmd env127 latex s0) (functional_cwd env127 s0)
             = Some \<lparr>returncode = 127, stdout = []\<rparr>"
    by (simp add: env127_def)
  have g: "shell env_ok (functional_cmd env_ok latex s0) (functional_cwd env_ok s0)
             = Some \<lparr>returncode = 0, stdout = []\<rparr>"
    by (simp add: env_ok_def)
  have e: "fst (Executable__is_present env127 latex s0)
     = Inr \<lparr>feature = latex, is_present = False,
            reason = Some (''Executable '' @ repr ''latex'' @ '' not found on PATH.'')\<rparr>"
    by (simp add: Executable__is_present_def env127_def executable_def latex_def)
  have n: "str_int 127 = ''127''"
    by code_simp
  from LaTeX_is_functional_exit_status [OF h] n
  have a: "fst (LaTeX_is_functional env127 latex s0)
     = Inr \<lparr>feature = latex, is_present = False,
            reason = Some ''Running latex on a sample file returned non-zero exit status 127''\<rparr>"
    by simp
  from LaTeX_is_functional_exit_status [OF g]
  have b: "fst (LaTeX_is_functional env_ok latex s0)
     = Inr \<lparr>feature = latex, is_present = True, reason = None\<rparr>"
    by simp
  from h a e g b show ?thesis by blast
qed

text \<open>
  With \<open>latex\<close> missing from the search path, \<open>is_functional\<close> still starts the
  shell, and its result is not the one of \<open>is_present\<close>.
\<close>

theorem is_functional_presence_gate_counterexample:
  "\<not> (\<not> which env127 (executable latex) \<longrightarrow>
        fst (LaTeX_is_functional env127 latex s0) = fst (Feature_is_present env127 latex s0)
        \<and> trace (snd (LaTeX_is_functional env127 latex s0)) = trace s0)"
  by (simp add: functional_env127 present_env127) (simp add: env127_def s0_def)

lemma Executable_negative_reason:
  "fst (Executable__is_present env f s) = Inr r \<Longrightarrow> \<not> is_present r \<Longrightarrow>
   reason r = Some (''Executable '' @ repr (executable f) @ '' not found on PATH.'')"
  by (auto simp: Executable__is_present_def split: if_splits)

lemma LaTeX_is_functional_results:
  "fst (LaTeX_is_functional env self s) = Inl OSError
   \<or> fst (LaTeX_is_functional env self s) = Inr \<lparr>feature = self, is_present = True, reason = None\<rparr>
   \<or> (\<exists>rc. fst (LaTeX_is_functional env self s)
         = Inr \<lparr>feature = self, is_present = False,
                reason = Some (''Running latex on a sample file returned non-zero exit status ''
                               @ str_int rc)\<rparr>)"
  by (auto simp: LaTeX_is_functional_eq split: option.split)

text \<open>
  C4, as the code has it: \<open>LaTeX.is_functional\<close> makes no presence check. Its result
  does not depend on what the search path holds; every call writes the sample document
  to the scratch file and runs the program through the shell exactly once, and the cache
  of \<open>is_present\<close> is neither read nor written. The result is never the negative
  result of \<open>Executable._is_present\<close>: with the executable missing from the search
  path, a nonzero exit status of the shell gives the negative result with the
  exit-status reason, and the exit status zero gives the positive result.
\<close>

theorem LaTeX_is_functional_ungated:
  "LaTeX_is_functional (env\<lparr>which := w\<rparr>) self s = LaTeX_is_functional env self s
   \<and> trace (snd (LaTeX_is_functional env self s))
       = trace s @ [Shell (functional_cmd env self s) (functional_cwd env s)]
   \<and> cache (snd (LaTeX_is_functional env self s)) = cache s
   \<and> files (snd (LaTeX_is_functional env self s)) = (files s)(scratch_file env s \<mapsto> sample_content)
   \<and> (\<forall>env' f s' r. fst (Executable__is_present env' f s') = Inr r \<longrightarrow> \<not> is_present r \<longrightarrow>
          fst (LaTeX_is_functional env self s) \<noteq> Inr r)
   \<and> (\<forall>proc. \<not> which env (executable self) \<longrightarrow>
          shell env (functional_cmd env self s) (functional_cwd env s) = Some proc \<longrightarrow>
          returncode proc \<noteq> 0 \<longrightarrow>
          fst (LaTeX_is_functional env self s)
            = Inr \<lparr>feature = self, is_present = False,
                   reason = Some (''Running latex on a sample file returned non-zero exit status ''
                                  @ str_int (returncode proc))\<rparr>)
   \<and> (\<forall>proc. \<not> which env (executable self) \<longrightarrow>
          shell env (functional_cmd env self s) (functional_cwd env s) = Some proc \<longrightarrow>
          returncode proc = 0 \<longrightarrow>
          fst (LaTeX_is_functional env self s)
            = Inr \<lparr>feature = self, is_present = True, reason = None\<rparr>)"
proof -
  have a: "LaTeX_is_functional (env\<lparr>which := w\<rparr>) self s = LaTeX_is_functional env self s"
    by (simp add: LaTeX_is_functional_eq after_functional_def functional_cmd_def
          functional_cwd_def scratch_file_def split: option.split)
  have b: "trace (snd (LaTeX_is_functional env self s))
       = trace s @ [Shell (functional_cmd env self s) (functional_cwd env s)]"
    by (simp add: snd_LaTeX_is_functional after_functional_def)
  have c: "cache (snd (LaTeX_is_functional env self s)) = cache s"
    by (simp add: snd_LaTeX_is_functional after_functional_def)
  have d: "files (snd (LaTeX_is_functional env self s))
             = (files s)(scratch_file env s \<mapsto> sample_content)"
    by (simp add: snd_LaTeX_is_functional after_functional_def)
  have e: "fst (LaTeX_is_functional env self s) \<noteq> Inr r"
    if "fst (Executable__is_present env' f s') = Inr r" "\<not> is_present r" for env' f s' r
  proof
    assume eq: "fst (LaTeX_is_functional env self s) = Inr r"
    note n = Executable_negative_reason [OF that]
    from LaTeX_is_functional_results [of env self s] eq that(2) n show False
      by auto
  qed
  have f: "fst (LaTeX_is_functional env self s)
            = Inr \<lparr>feature = self, is_present = False,
                   reason = Some (''Running latex on a sample file returned non-zero exit status ''
                                  @ str_int (returncode proc))\<rparr>"
    if "shell env (functional_cmd env self s) (functional_cwd env s) = Some proc"
       "returncode proc \<noteq> 0" for proc
    using that by (simp add: fst_LaTeX_is_functional)
  have g: "fst (LaTeX_is_functional env self s)
            = Inr \<lparr>feature = self, is_present = True, reason = None\<rparr>"
    if "shell env (functional_cmd env self s) (functional_cwd env s) = Some proc"
       "returncode proc = 0" for proc
    using that by (simp add: fst_LaTeX_is_functional)
  from a b c d e f g show ?thesis by blast
qed

text \<open>
  \<open>latex\<close> is missing and the shell answers 127: the result carries the exit status
  and is not the not-found result. \<open>latex\<close> is missing from the search path and the
  shell answers 0 all the same: the result is positive.
\<close>

theorem LaTeX_is_functional_ungated_witness:
  "\<not> which env127 (executable latex)
   \<and> shell env127 (functional_cmd env127 latex s0) (functional_cwd env127 s0)
       = Some \<lparr>returncode = 127, stdout = []\<rparr>
   \<and> fst (Executable__is_present env127 latex s0)
       = Inr \<lparr>feature = latex, is_present = False,
              reason = Some (''Executable '' @ repr ''latex'' @ '' not found on PATH.'')\<rparr>
   \<and> fst (LaTeX_is_functional env127 latex s0)
       = Inr \<lparr>feature = latex, is_present = False,
              reason = Some ''Running latex on a sample file returned non-zero exit status 127''\<rparr>
   \<and> fst (LaTeX_is_functional env127 latex s0) \<noteq> fst (Executable__is_present env127 latex s0)
   \<and> \<not> which (env_ok\<lparr>which := (\<lambda>c. False)\<rparr>) (executable latex)
   \<and> fst (LaTeX_is_functional (env_ok\<lparr>which := (\<lambda>c. False)\<rparr>) latex s0)
       = Inr \<lparr>feature = latex, is_present = True, reason = None\<rparr>"
proof -
  note t = LaTeX_is_functional_ungated [where env = env127 and self = latex and s = s0]
  have w: "\<not> which env127 (executable latex)"
    by (simp add: env127_def)
  have h: "shell env127 (functional_cmd env127 latex s0) (functional_cwd env127 s0)
             = Some \<lparr>returncode = 127, stdout = []\<rparr>"
    by (simp add: env127_def)
  have x: "fst (Executable__is_present env127 latex s0)
       = Inr \<lparr>feature = latex, is_present = False,
              reason = Some (''Executable '' @ repr ''latex'' @ '' not found on PATH.'')\<rparr>"
    by (simp add: Executable__is_present_def env127_def executable_def latex_def)
  have n: "str_int 127 = ''127''"
    by code_simp
  have r: "returncode \<lparr>returncode = 127, stdout = []\<rparr> \<noteq> 0"
    by simp
  from t w h r
  have "fst (LaTeX_is_functional env127 latex s0)
          = Inr \<lparr>feature = latex, is_present = False,
                 reason = Some (''Running latex on a sample file returned non-zero exit status ''
                                @ str_int (returncode \<lparr>returncode = 127, stdout = []\<rparr>))\<rparr>"
    by blast
  then have a: "fst (LaTeX_is_functional env127 latex s0)
       = Inr \<lparr>feature = latex, is_present = False,
              reason = Some ''Running latex on a sample file returned non-zero exit status 127''\<rparr>"
    by (simp add: n)
  have p: "\<not> is_present \<lparr>feature = latex, is_present = False,
              reason = Some (''Executable '' @ repr ''latex'' @ '' not found on PATH.'')\<rparr>"
    by simp
  from t x p
  have "fst (LaTeX_is_functional env127 latex s0)
          \<noteq> Inr \<lparr>feature = latex, is_present = False,
                 reason = Some (''Executable '' @ repr ''latex'' @ '' not found on PATH.'')\<rparr>"
    by blast
  then have b: "fst (LaTeX_is_functional env127 latex s0) \<noteq> fst (Executable__is_present env127 latex s0)"
    unfolding x .
  note u = LaTeX_is_functional_ungated [where env = "env_ok\<lparr>which := (\<lambda>c. False)\<rparr>"
                and self = latex and s = s0]
  have w2: "\<not> which (env_ok\<lparr>which := (\<lambda>c. False)\<rparr>) (executable latex)"
    by simp
  have h2: "shell (env_ok\<lparr>which := (\<lambda>c. False)\<rparr>)
              (functional_cmd (env_ok\<lparr>which := (\<lambda>c. False)\<rparr>) latex s0)
              (functional_cwd (env_ok\<lparr>which := (\<lambda>c. False)\<rparr>) s0)
             = Some \<lparr>returncode = 0, stdout = []\<rparr>"
    by (simp add: env_ok_def)
  have r2: "returncode \<lparr>returncode = 0, stdout = []\<rparr> = 0"
    by simp
  from u w2 h2 r2
  have c: "fst (LaTeX_is_functional (env_ok\<lparr>which := (\<lambda>c. False)\<rparr>) latex s0)
       = Inr \<lparr>feature = latex, is_present = True, reason = None\<rparr>"
    by blast
  from w h x a b w2 c show ?thesis by blast
qed

text \<open>
  The scratch file did not exist before the call and is still there, with the sample
  document in it, after a successful call and after a failing one.
\<close>

theorem scratch_file_after_return_counterexample:
  "files s0 ''/tmp/tmp_0.tex'' = None
   \<and> fst (LaTeX_is_functional env_ok latex s0) = Inr \<lparr>feature = latex, is_present = True, reason = None\<rparr>
   \<and> files (snd (LaTeX_is_functional env_ok latex s0)) ''/tmp/tmp_0.tex'' = Some sample_content
   \<and> fst (LaTeX_is_functional env127 latex s0)
       = Inr \<lparr>feature = latex, is_present = False,
              reason = Some ''Running latex on a sample file returned non-zero exit status 127''\<rparr>
   \<and> files (snd (LaTeX_is_functional env127 latex s0)) ''/tmp/tmp_0.tex'' = Some sample_content"
  by (simp add: functional_env127 functional_env_ok) (simp add: s0_def)

text \<open>
  C5, as the code has it: what \<open>is_functional\<close> releases before it returns is the
  handle it opened for writing: the open handles are the ones of before the call. The
  scratch file itself is not removed on any path: after the call the files are the
  ones of before, and the scratch file with the sample document.
\<close>

theorem LaTeX_is_functional_scratch_file:
  "handles (snd (LaTeX_is_functional env self s)) = handles s
   \<and> files (snd (LaTeX_is_functional env self s)) = (files s)(scratch_file env s \<mapsto> sample_content)"
  by (simp add: snd_LaTeX_is_functional after_functional_def)

section \<open>The absolute file name\<close>

lemma TeXFile_absolute_filename_eq:
  "TeXFile_absolute_filename env self s =
     (case exec env [''kpsewhich'', filename self] of
        None \<Rightarrow> (Inl OSError, log (Exec [''kpsewhich'', filename self]) s)
      | Some proc \<Rightarrow>
          if returncode proc = 0
          then (Inr (strip (stdout proc)), log (Exec [''kpsewhich'', filename self]) s)
          else (Inl (FeatureNotPresentError self (not_found_reason self)),
                log (Exec [''kpsewhich'', filename self]) s))"
  by (simp add: TeXFile_absolute_filename_def run_def not_found_reason_def split: option.split)

lemma StaticFile__is_present_eq:
  "StaticFile__is_present env self s =
     (case exec env [''kpsewhich'', filename self] of
        None \<Rightarrow> (Inl OSError, log (Exec [''kpsewhich'', filename self]) s)
      | Some proc \<Rightarrow>
          if returncode proc = 0
          then (Inr \<lparr>feature = self, is_present = True, reason = None\<rparr>,
                log (Exec [''kpsewhich'', filename self]) s)
          else (Inr \<lparr>feature = self, is_present = False, reason = Some (not_found_reason self)\<rparr>,
                log (Exec [''kpsewhich'', filename self]) s))"
  by (simp add: StaticFile__is_present_def TeXFile_absolute_filename_eq split: option.split)

text \<open>
  The resolver prints a path with a blank in front: \<open>absolute_filename\<close> does not
  return the output with only the trailing white space removed.
\<close>

theorem absolute_filename_trailing_strip_counterexample:
  "\<not> fst (TeXFile_absolute_filename env_padded (TeXFile ''a'' ''a.sty'') s0)
       = Inr (rstrip (stdout \<lparr>returncode = 0, stdout = '' /texmf/a.sty\<newline>''\<rparr>))"
  by (simp add: TeXFile_absolute_filename_eq env_padded_def strip_padded rstrip_padded)

text \<open>
  C2, as the code has it: when \<open>kpsewhich\<close> exits with status zero,
  \<open>absolute_filename\<close> returns its standard output with the white space at both ends
  removed. It raises \<open>FeatureNotPresentError\<close> exactly when \<open>kpsewhich\<close> ran and
  exited with a nonzero status; the error then carries the feature and the reason
  \<open>repr(filename)\<close> followed by \<open>not found by kpsewhich\<close>, which for a plain file name is
  the file name between single quotes. No other error than this one and the launch
  error leaves the function.
\<close>

theorem TeXFile_absolute_filename_result:
  "(\<forall>proc. exec env [''kpsewhich'', filename self] = Some proc \<longrightarrow> returncode proc = 0 \<longrightarrow>
       fst (TeXFile_absolute_filename env self s) = Inr (strip (stdout proc)))
   \<and> ((\<exists>f r. fst (TeXFile_absolute_filename env self s) = Inl (FeatureNotPresentError f r))
        \<longleftrightarrow> (\<exists>proc. exec env [''kpsewhich'', filename self] = Some proc \<and> returncode proc \<noteq> 0))
   \<and> (\<forall>f r. fst (TeXFile_absolute_filename env self s) = Inl (FeatureNotPresentError f r) \<longrightarrow>
         f = self \<and> r = repr (filename self) @ '' not found by kpsewhich''
         \<and> (plain (filename self) \<longrightarrow>
              r = [CHR 0x27] @ filename self @ [CHR 0x27] @ '' not found by kpsewhich''))
   \<and> (\<forall>e. fst (TeXFile_absolute_filename env self s) = Inl e \<longrightarrow>
         e = OSError \<or> e = FeatureNotPresentError self (repr (filename self) @ '' not found by kpsewhich''))"
  using repr_plain [of "filename self"]
  by (auto simp: TeXFile_absolute_filename_eq not_found_reason_def split: option.splits if_splits)

text \<open>
  Both cases at a concrete input: a found file, and a resolver killed by signal 11.
\<close>

theorem TeXFile_absolute_filename_result_witness:
  "exec env_padded [''kpsewhich'', filename (TeXFile ''a'' ''a.sty'')]
     = Some \<lparr>returncode = 0, stdout = '' /texmf/a.sty\<newline>''\<rparr>
   \<and> fst (TeXFile_absolute_filename env_padded (TeXFile ''a'' ''a.sty'') s0) = Inr ''/texmf/a.sty''
   \<and> exec env_killed [''kpsewhich'', filename (TeXFile ''a'' ''a.sty'')]
     = Some \<lparr>returncode = - 11, stdout = []\<rparr>
   \<and> fst (TeXFile_absolute_filename env_killed (TeXFile ''a'' ''a.sty'') s0)
     = Inl (FeatureNotPresentError (TeXFile ''a'' ''a.sty'')
              ([CHR 0x27] @ ''a.sty'' @ [CHR 0x27] @ '' not found by kpsewhich''))"
proof -
  have p: "exec env_padded [''kpsewhich'', filename (TeXFile ''a'' ''a.sty'')]
     = Some \<lparr>returncode = 0, stdout = '' /texmf/a.sty\<newline>''\<rparr>"
    by (simp add: env_padded_def)
  have k: "exec env_killed [''kpsewhich'', filename (TeXFile ''a'' ''a.sty'')]
     = Some \<lparr>returncode = - 11, stdout = []\<rparr>"
    by (simp add: env_killed_def)
  have e: "fst (TeXFile_absolute_filename env_killed (TeXFile ''a'' ''a.sty'') s0)
             = Inl (FeatureNotPresentError (TeXFile ''a'' ''a.sty'') (not_found_reason (TeXFile ''a'' ''a.sty'')))"
    by (simp add: TeXFile_absolute_filename_eq k)
  have r: "repr ''a.sty'' = [CHR 0x27] @ ''a.sty'' @ [CHR 0x27]"
    by (rule repr_plain) (simp add: plain_def isprintable_def)
  have "\<forall>proc. exec env_padded [''kpsewhich'', filename (TeXFile ''a'' ''a.sty'')] = Some proc \<longrightarrow>
          returncode proc = 0 \<longrightarrow>
          fst (TeXFile_absolute_filename env_padded (TeXFile ''a'' ''a.sty'') s0) = Inr (strip (stdout proc))"
    using TeXFile_absolute_filename_result [of env_padded "TeXFile ''a'' ''a.sty''" s0]
    by (rule conjunct1)
  with p have a: "fst (TeXFile_absolute_filename env_padded (TeXFile ''a'' ''a.sty'') s0)
                    = Inr (strip '' /texmf/a.sty\<newline>'')"
    by fastforce
  have b: "fst (TeXFile_absolute_filename env_killed (TeXFile ''a'' ''a.sty'') s0)
     = Inl (FeatureNotPresentError (TeXFile ''a'' ''a.sty'')
              ([CHR 0x27] @ ''a.sty'' @ [CHR 0x27] @ '' not found by kpsewhich''))"
    unfolding e not_found_reason_def by (simp add: TeXFile_def r)
  from p k a b show ?thesis
    unfolding strip_padded by blast
qed

text \<open>
  When \<open>kpsewhich\<close> cannot be started, the launch error leaves
  \<open>absolute_filename\<close>: it is not turned into the not-present error.
\<close>

theorem resolver_launch_failure_counterexample:
  "exec env127 [''kpsewhich'', ''tkz-graph.sty''] = None
   \<and> filename (LaTeXPackage ''tkz-graph'') = ''tkz-graph.sty''
   \<and> fst (TeXFile_absolute_filename env127 (LaTeXPackage ''tkz-graph'') s0) = Inl OSError"
  by (simp add: TeXFile_absolute_filename_eq LaTeXPackage_def TeXFile_def env127_def)

text \<open>
  C6, as the code has it: a resolver that dies from a signal has a negative return code,
  and \<open>absolute_filename\<close> then raises the not-present error with the usual reason, which
  the existence check of the file turns into a negative result. A resolver that cannot
  be started is not covered: \<open>absolute_filename\<close> passes the launch error on to its
  caller.
\<close>

theorem resolver_abnormal_exit:
  "(\<forall>proc. exec env [''kpsewhich'', filename self] = Some proc \<longrightarrow> returncode proc < 0 \<longrightarrow>
       fst (TeXFile_absolute_filename env self s)
         = Inl (FeatureNotPresentError self (repr (filename self) @ '' not found by kpsewhich''))
       \<and> fst (StaticFile__is_present env self s)
         = Inr \<lparr>feature = self, is_present = False,
                reason = Some (repr (filename self) @ '' not found by kpsewhich'')\<rparr>)
   \<and> (exec env [''kpsewhich'', filename self] = None \<longrightarrow>
       fst (TeXFile_absolute_filename env self s) = Inl OSError)"
  by (simp add: TeXFile_absolute_filename_eq StaticFile__is_present_eq not_found_reason_def)

text \<open>
  A resolver killed by signal 11, and a resolver that is not installed.
\<close>

theorem resolver_abnormal_exit_witness:
  "exec env_killed [''kpsewhich'', filename (TeXFile ''a'' ''a.sty'')]
     = Some \<lparr>returncode = - 11, stdout = []\<rparr>
   \<and> fst (TeXFile_absolute_filename env_killed (TeXFile ''a'' ''a.sty'') s0)
     = Inl (FeatureNotPresentError (TeXFile ''a'' ''a.sty'')
              (repr (filename (TeXFile ''a'' ''a.sty'')) @ '' not found by kpsewhich''))
   \<and> exec env127 [''kpsewhich'', filename (TeXFile ''a'' ''a.sty'')] = None
   \<and> fst (TeXFile_absolute_filename env127 (TeXFile ''a'' ''a.sty'') s0) = Inl OSError"
proof -
  have k: "exec env_killed [''kpsewhich'', filename (TeXFile ''a'' ''a.sty'')]
     = Some \<lparr>returncode = - 11, stdout = []\<rparr>"
    by (simp add: env_killed_def)
  have n: "exec env127 [''kpsewhich'', filename (TeXFile ''a'' ''a.sty'')] = None"
    by (simp add: env127_def)
  from resolver_abnormal_exit [of env_killed "TeXFile ''a'' ''a.sty''" s0] k
  have a: "fst (TeXFile_absolute_filename env_killed (TeXFile ''a'' ''a.sty'') s0)
     = Inl (FeatureNotPresentError (TeXFile ''a'' ''a.sty'')
              (repr (filename (TeXFile ''a'' ''a.sty'')) @ '' not found by kpsewhich''))"
    by simp
  from resolver_abnormal_exit [of env127 "TeXFile ''a'' ''a.sty''" s0] n
  have b: "fst (TeXFile_absolute_filename env127 (TeXFile ''a'' ''a.sty'') s0) = Inl OSError"
    by simp
  from k a n b show ?thesis by blast
qed

section \<open>The existence check\<close>

lemma Feature_is_present_hit:
  "cache s (name self) = Some res \<Longrightarrow> Feature_is_present env self s = (Inr res, s)"
  by (simp add: Feature_is_present.simps)

lemma Feature_is_present_miss:
  "cache s (name self) = None \<Longrightarrow>
   Feature_is_present env self s =
     (case Feature__is_present env self s of
        (Inl e, s') \<Rightarrow> (Inl e, s')
      | (Inr res, s') \<Rightarrow> (Inr res, s'\<lparr>cache := (cache s')(name self \<mapsto> res)\<rparr>))"
  by (simp add: Feature_is_present.simps)

lemma Feature_is_present_stored:
  "Feature_is_present env self s = (Inr r, s') \<Longrightarrow> cache s' (name self) = Some r"
  by (cases "cache s (name self)")
     (auto simp: Feature_is_present_hit Feature_is_present_miss split: prod.splits sum.splits)

lemma TeXFile__is_present_eq:
  "Feature__is_present env (TeXFile n f) s =
     (case Feature_is_present env pdflatex s of
        (Inl e, s') \<Rightarrow> (Inl e, s')
      | (Inr test, s') \<Rightarrow>
          if \<not> is_present test then (Inr test, s')
          else StaticFile__is_present env (TeXFile n f) s')"
  by (simp add: TeXFile_def split: prod.split sum.split)

lemma pdflatex_is_present_cases:
  "Feature_is_present env pdflatex s =
     (case cache s ''pdflatex'' of
        Some res \<Rightarrow> (Inr res, s)
      | None \<Rightarrow>
          (Inr \<lparr>feature = pdflatex, is_present = which env ''pdflatex'',
                 reason = (if which env ''pdflatex'' then None
                           else Some (''Executable '' @ repr ''pdflatex'' @ '' not found on PATH.''))\<rparr>,
           s\<lparr>trace := trace s @ [Which ''pdflatex''],
             cache := (cache s)(''pdflatex'' \<mapsto>
               \<lparr>feature = pdflatex, is_present = which env ''pdflatex'',
                 reason = (if which env ''pdflatex'' then None
                           else Some (''Executable '' @ repr ''pdflatex'' @ '' not found on PATH.''))\<rparr>)\<rparr>))"
  by (simp add: Feature_is_present.simps pdflatex_def Executable__is_present_def executable_def
        log_def split: option.split)

lemma pdflatex_is_present_trace:
  "Feature_is_present env pdflatex s = (r, s') \<Longrightarrow>
   trace s' = trace s \<or> trace s' = trace s @ [Which ''pdflatex'']"
  by (auto simp: pdflatex_is_present_cases split: option.splits)

lemma trace_StaticFile__is_present:
  "trace (snd (StaticFile__is_present env self s)) = trace s @ [Exec [''kpsewhich'', filename self]]"
  by (simp add: StaticFile__is_present_eq log_def split: option.split)

lemma present_pdflatex_env127:
  "Feature_is_present env127 pdflatex s0 =
     (Inr \<lparr>feature = pdflatex, is_present = False,
            reason = Some (''Executable '' @ repr ''pdflatex'' @ '' not found on PATH.'')\<rparr>,
      s0\<lparr>trace := [Which ''pdflatex''],
         cache := [''pdflatex'' \<mapsto> \<lparr>feature = pdflatex, is_present = False,
            reason = Some (''Executable '' @ repr ''pdflatex'' @ '' not found on PATH.'')\<rparr>]\<rparr>)"
  by (simp add: Feature_is_present.simps Executable__is_present_def executable_def env127_def
        s0_def pdflatex_def log_def)

lemma present_pdflatex_env_ok:
  "Feature_is_present env_ok pdflatex s0 =
     (Inr \<lparr>feature = pdflatex, is_present = True, reason = None\<rparr>,
      s0\<lparr>trace := [Which ''pdflatex''],
         cache := [''pdflatex'' \<mapsto> \<lparr>feature = pdflatex, is_present = True, reason = None\<rparr>]\<rparr>)"
  by (simp add: Feature_is_present.simps Executable__is_present_def executable_def env_ok_def
        s0_def pdflatex_def log_def)

lemma present_tkz_env_ok:
  "Feature_is_present env_ok (LaTeXPackage ''tkz-graph'') s0 =
     (Inr \<lparr>feature = LaTeXPackage ''tkz-graph'', is_present = True, reason = None\<rparr>,
      s0\<lparr>trace := [Which ''pdflatex'', Exec [''kpsewhich'', ''tkz-graph.sty'']],
         cache := [''pdflatex'' \<mapsto> \<lparr>feature = pdflatex, is_present = True, reason = None\<rparr>,
                   ''latex_package_tkz_graph'' \<mapsto>
                     \<lparr>feature = LaTeXPackage ''tkz-graph'', is_present = True, reason = None\<rparr>]\<rparr>)"
  by (simp add: Feature_is_present.simps LaTeXPackage_def TeXFile_def replace_def pdflatex_def
        Executable__is_present_def executable_def StaticFile__is_present_eq env_ok_def s0_def log_def)

text \<open>
  C1: \<open>TeXFile._is_present\<close> asks the \<open>pdflatex\<close> feature first. When that reports
  absent, its negative result is returned as it is, reason included, and the state is the
  one the member left: \<open>kpsewhich\<close> was not started. When it reports present, the file
  lookup runs second, from the state the member left. Asking the member adds at most the
  search-path lookup of \<open>pdflatex\<close> to the trace.
\<close>

theorem TeXFile__is_present_short_circuit:
  assumes "Feature_is_present env pdflatex s = (Inr test, s')"
  shows "(\<not> is_present test \<longrightarrow>
            Feature__is_present env (TeXFile n f) s = (Inr test, s')
            \<and> (\<forall>args. Exec args \<in> set (trace (snd (Feature__is_present env (TeXFile n f) s)))
                   \<longrightarrow> Exec args \<in> set (trace s)))
       \<and> (is_present test \<longrightarrow>
            Feature__is_present env (TeXFile n f) s = StaticFile__is_present env (TeXFile n f) s'
            \<and> trace (snd (Feature__is_present env (TeXFile n f) s))
                = trace s' @ [Exec [''kpsewhich'', f]])
       \<and> (trace s' = trace s \<or> trace s' = trace s @ [Which ''pdflatex''])"
proof -
  note t = pdflatex_is_present_trace [OF assms]
  have neg: "Feature__is_present env (TeXFile n f) s = (Inr test, s')" if "\<not> is_present test"
    using that by (simp add: TeXFile__is_present_eq assms)
  have noexec: "Exec args \<in> set (trace s)" if "Exec args \<in> set (trace s')" for args
    using t that by auto
  have pos: "Feature__is_present env (TeXFile n f) s = StaticFile__is_present env (TeXFile n f) s'"
    if "is_present test"
    using that by (simp add: TeXFile__is_present_eq assms)
  have fn: "filename (TeXFile n f) = f"
    by (simp add: TeXFile_def)
  from neg noexec pos t show ?thesis
    by (auto simp: trace_StaticFile__is_present fn)
qed

text \<open>
  Nothing is installed: the result for the package of \<open>tkz-graph\<close> is the result of
  \<open>pdflatex\<close>, and the trace holds the search-path lookup only. Everything is
  installed: the lookup of \<open>pdflatex\<close> comes first, the run of \<open>kpsewhich\<close> second.
\<close>

theorem TeXFile__is_present_short_circuit_witness:
  "Feature_is_present env127 pdflatex s0 =
     (Inr \<lparr>feature = pdflatex, is_present = False,
            reason = Some (''Executable '' @ repr ''pdflatex'' @ '' not found on PATH.'')\<rparr>,
      s0\<lparr>trace := [Which ''pdflatex''],
         cache := [''pdflatex'' \<mapsto> \<lparr>feature = pdflatex, is_present = False,
            reason = Some (''Executable '' @ repr ''pdflatex'' @ '' not found on PATH.'')\<rparr>]\<rparr>)
   \<and> Feature__is_present env127 (TeXFile ''latex_package_tkz_graph'' ''tkz-graph.sty'') s0 =
     (Inr \<lparr>feature = pdflatex, is_present = False,
            reason = Some (''Executable '' @ repr ''pdflatex'' @ '' not found on PATH.'')\<rparr>,
      s0\<lparr>trace := [Which ''pdflatex''],
         cache := [''pdflatex'' \<mapsto> \<lparr>feature = pdflatex, is_present = False,
            reason = Some (''Executable '' @ repr ''pdflatex'' @ '' not found on PATH.'')\<rparr>]\<rparr>)
   \<and> fst (Feature_is_present env_ok pdflatex s0)
       = Inr \<lparr>feature = pdflatex, is_present = True, reason = None\<rparr>
   \<and> trace (snd (Feature__is_present env_ok (TeXFile ''latex_package_tkz_graph'' ''tkz-graph.sty'') s0))
       = [Which ''pdflatex'', Exec [''kpsewhich'', ''tkz-graph.sty'']]"
proof -
  from TeXFile__is_present_short_circuit [OF present_pdflatex_env127,
          of "''latex_package_tkz_graph''" "''tkz-graph.sty''"]
  have a: "Feature__is_present env127 (TeXFile ''latex_package_tkz_graph'' ''tkz-graph.sty'') s0 =
     (Inr \<lparr>feature = pdflatex, is_present = False,
            reason = Some (''Executable '' @ repr ''pdflatex'' @ '' not found on PATH.'')\<rparr>,
      s0\<lparr>trace := [Which ''pdflatex''],
         cache := [''pdflatex'' \<mapsto> \<lparr>feature = pdflatex, is_present = False,
            reason = Some (''Executable '' @ repr ''pdflatex'' @ '' not found on PATH.'')\<rparr>]\<rparr>)"
    by simp
  have p: "is_present \<lparr>feature = pdflatex, is_present = True, reason = None\<rparr>"
    by simp
  from TeXFile__is_present_short_circuit [OF present_pdflatex_env_ok,
          of "''latex_package_tkz_graph''" "''tkz-graph.sty''"] p
  have "trace (snd (Feature__is_present env_ok (TeXFile ''latex_package_tkz_graph'' ''tkz-graph.sty'') s0))
       = trace (s0\<lparr>trace := [Which ''pdflatex''],
                    cache := [''pdflatex'' \<mapsto> \<lparr>feature = pdflatex, is_present = True, reason = None\<rparr>]\<rparr>)
         @ [Exec [''kpsewhich'', ''tkz-graph.sty'']]"
    by blast
  then have b: "trace (snd (Feature__is_present env_ok (TeXFile ''latex_package_tkz_graph'' ''tkz-graph.sty'') s0))
       = [Which ''pdflatex'', Exec [''kpsewhich'', ''tkz-graph.sty'']]"
    by simp
  have c: "fst (Feature_is_present env_ok pdflatex s0)
       = Inr \<lparr>feature = pdflatex, is_present = True, reason = None\<rparr>"
    unfolding present_pdflatex_env_ok by simp
  from present_pdflatex_env127 a c b show ?thesis by blast
qed

text \<open>
  C9: when \<open>is_present\<close> has returned a result, asking again in the state it left
  returns the same result and leaves the state, and so the trace of external
  invocations, unchanged. On a cache hit the first call returned the cached result and
  changed nothing; on a cache miss it returned the result of the existence check of the
  feature's kind and stored it under the feature's name.
\<close>

theorem Feature_is_present_idempotent:
  assumes "Feature_is_present env self s = (Inr r, s')"
  shows "Feature_is_present env self s' = (Inr r, s')
       \<and> trace (snd (Feature_is_present env self s')) = trace s'
       \<and> (\<forall>c. cache s (name self) = Some c \<longrightarrow> r = c \<and> s' = s)
       \<and> (cache s (name self) = None \<longrightarrow>
            fst (Feature__is_present env self s) = Inr r
            \<and> s' = (snd (Feature__is_present env self s))
                      \<lparr>cache := (cache (snd (Feature__is_present env self s)))(name self \<mapsto> r)\<rparr>)"
proof -
  have again: "Feature_is_present env self s' = (Inr r, s')"
    using Feature_is_present_stored [OF assms] by (rule Feature_is_present_hit)
  have hit: "r = c \<and> s' = s" if "cache s (name self) = Some c" for c
    using assms Feature_is_present_hit [OF that, of env] by simp
  have miss: "fst (Feature__is_present env self s) = Inr r
            \<and> s' = (snd (Feature__is_present env self s))
                      \<lparr>cache := (cache (snd (Feature__is_present env self s)))(name self \<mapsto> r)\<rparr>"
    if "cache s (name self) = None"
    using assms Feature_is_present_miss [OF that, of env]
    by (auto split: prod.splits sum.splits)
  from again hit miss show ?thesis by simp
qed

text \<open>
  Everything is installed: the first query for the package of \<open>tkz-graph\<close> looks
  \<open>pdflatex\<close> up and runs \<open>kpsewhich\<close>, the second does neither.
\<close>

theorem Feature_is_present_idempotent_witness:
  "fst (Feature_is_present env_ok (LaTeXPackage ''tkz-graph'') s0)
     = Inr \<lparr>feature = LaTeXPackage ''tkz-graph'', is_present = True, reason = None\<rparr>
   \<and> trace (snd (Feature_is_present env_ok (LaTeXPackage ''tkz-graph'') s0))
     = [Which ''pdflatex'', Exec [''kpsewhich'', ''tkz-graph.sty'']]
   \<and> cache s0 (name (LaTeXPackage ''tkz-graph'')) = None
   \<and> cache (snd (Feature_is_present env_ok (LaTeXPackage ''tkz-graph'') s0))
         (name (LaTeXPackage ''tkz-graph''))
     = Some \<lparr>feature = LaTeXPackage ''tkz-graph'', is_present = True, reason = None\<rparr>
   \<and> Feature_is_present env_ok (LaTeXPackage ''tkz-graph'')
       (snd (Feature_is_present env_ok (LaTeXPackage ''tkz-graph'') s0))
     = (Inr \<lparr>feature = LaTeXPackage ''tkz-graph'', is_present = True, reason = None\<rparr>,
        snd (Feature_is_present env_ok (LaTeXPackage ''tkz-graph'') s0))"
proof -
  have c0: "cache s0 (name (LaTeXPackage ''tkz-graph'')) = None"
    by (simp add: s0_def)
  have c1: "cache (snd (Feature_is_present env_ok (LaTeXPackage ''tkz-graph'') s0))
         (name (LaTeXPackage ''tkz-graph''))
     = Some \<lparr>feature = LaTeXPackage ''tkz-graph'', is_present = True, reason = None\<rparr>"
    unfolding present_tkz_env_ok by (simp add: LaTeXPackage_def TeXFile_def replace_def)
  have t: "trace (snd (Feature_is_present env_ok (LaTeXPackage ''tkz-graph'') s0))
     = [Which ''pdflatex'', Exec [''kpsewhich'', ''tkz-graph.sty'']]"
    unfolding present_tkz_env_ok by simp
  have f: "fst (Feature_is_present env_ok (LaTeXPackage ''tkz-graph'') s0)
     = Inr \<lparr>feature = LaTeXPackage ''tkz-graph'', is_present = True, reason = None\<rparr>"
    unfolding present_tkz_env_ok by simp
  then have "Feature_is_present env_ok (LaTeXPackage ''tkz-graph'') s0
     = (Inr \<lparr>feature = LaTeXPackage ''tkz-graph'', is_present = True, reason = None\<rparr>,
        snd (Feature_is_present env_ok (LaTeXPackage ''tkz-graph'') s0))"
    by (simp add: prod_eq_iff)
  from Feature_is_present_idempotent [OF this] f t c0 c1 show ?thesis
    by blast
qed

lemma TeXFile_is_present_negative:
  assumes "\<not> which env ''pdflatex''" and "cache s ''pdflatex'' = None" and "cache s n = None"
  shows "fst (Feature_is_present env (TeXFile n f) s)
           = Inr \<lparr>feature = pdflatex, is_present = False,
                  reason = Some (''Executable '' @ repr ''pdflatex'' @ '' not found on PATH.'')\<rparr>"
proof -
  have nm: "name (TeXFile n f) = n" by (simp add: TeXFile_def)
  have "cache s (name (TeXFile n f)) = None" using assms(3) by (simp add: nm)
  note m = Feature_is_present_miss [OF this, of env]
  show ?thesis
    unfolding m TeXFile__is_present_eq pdflatex_is_present_cases using assms(1,2)
    by simp
qed

text \<open>
  C10: \<open>absolute_filename\<close> does not depend on what the search path holds and starts
  \<open>kpsewhich\<close> on every call. So where \<open>pdflatex\<close> is missing, nothing is cached and
  \<open>kpsewhich\<close> finds the file, \<open>absolute_filename\<close> returns the path while
  \<open>_is_present\<close> and \<open>is_present\<close> report the feature absent.
\<close>

theorem absolute_filename_ungated:
  "TeXFile_absolute_filename (env\<lparr>which := w\<rparr>) self s = TeXFile_absolute_filename env self s
   \<and> trace (snd (TeXFile_absolute_filename env self s))
       = trace s @ [Exec [''kpsewhich'', filename self]]
   \<and> (\<not> which env ''pdflatex'' \<and> cache s ''pdflatex'' = None \<and> cache s n = None
        \<and> exec env [''kpsewhich'', f] = Some proc \<and> returncode proc = 0
       \<longrightarrow> fst (TeXFile_absolute_filename env (TeXFile n f) s) = Inr (strip (stdout proc))
         \<and> (\<exists>r. fst (Feature__is_present env (TeXFile n f) s) = Inr r \<and> \<not> is_present r)
         \<and> (\<exists>r. fst (Feature_is_present env (TeXFile n f) s) = Inr r \<and> \<not> is_present r))"
proof -
  have a: "TeXFile_absolute_filename (env\<lparr>which := w\<rparr>) self s = TeXFile_absolute_filename env self s"
    by (simp add: TeXFile_absolute_filename_eq)
  have b: "trace (snd (TeXFile_absolute_filename env self s))
       = trace s @ [Exec [''kpsewhich'', filename self]]"
    by (simp add: TeXFile_absolute_filename_eq log_def split: option.split)
  have c: "fst (TeXFile_absolute_filename env (TeXFile n f) s) = Inr (strip (stdout proc))"
    if "exec env [''kpsewhich'', f] = Some proc" "returncode proc = 0"
    using that by (simp add: TeXFile_absolute_filename_eq TeXFile_def)
  have d: "\<exists>r. fst (Feature_is_present env (TeXFile n f) s) = Inr r \<and> \<not> is_present r"
    if "\<not> which env ''pdflatex''" "cache s ''pdflatex'' = None" "cache s n = None"
    using TeXFile_is_present_negative [OF that, of f] by simp
  have e: "\<exists>r. fst (Feature__is_present env (TeXFile n f) s) = Inr r \<and> \<not> is_present r"
    if "\<not> which env ''pdflatex''" "cache s ''pdflatex'' = None"
    using that by (simp add: TeXFile__is_present_eq pdflatex_is_present_cases)
  from a b c d e show ?thesis by blast
qed

text \<open>
  Only \<open>kpsewhich\<close> is installed.
\<close>

theorem absolute_filename_ungated_witness:
  "\<not> which env_kpse_only ''pdflatex''
   \<and> exec env_kpse_only [''kpsewhich'', ''tkz-graph.sty'']
       = Some \<lparr>returncode = 0, stdout = ''/texmf/tkz-graph.sty\<newline>''\<rparr>
   \<and> fst (TeXFile_absolute_filename env_kpse_only
            (TeXFile ''latex_package_tkz_graph'' ''tkz-graph.sty'') s0) = Inr ''/texmf/tkz-graph.sty''
   \<and> (\<exists>r. fst (Feature__is_present env_kpse_only
                 (TeXFile ''latex_package_tkz_graph'' ''tkz-graph.sty'') s0) = Inr r
          \<and> \<not> is_present r)
   \<and> (\<exists>r. fst (Feature_is_present env_kpse_only
                 (TeXFile ''latex_package_tkz_graph'' ''tkz-graph.sty'') s0) = Inr r
          \<and> \<not> is_present r)"
proof -
  have w: "\<not> which env_kpse_only ''pdflatex''"
    by (simp add: env_kpse_only_def)
  have e: "exec env_kpse_only [''kpsewhich'', ''tkz-graph.sty'']
       = Some \<lparr>returncode = 0, stdout = ''/texmf/tkz-graph.sty\<newline>''\<rparr>"
    by (simp add: env_kpse_only_def env_ok_def)
  have c: "cache s0 ''pdflatex'' = None" "cache s0 ''latex_package_tkz_graph'' = None"
    by (simp_all add: s0_def)
  have r: "returncode \<lparr>returncode = 0, stdout = ''/texmf/tkz-graph.sty\<newline>''\<rparr> = 0"
    by simp
  from absolute_filename_ungated [where env = env_kpse_only and s = s0
         and n = "''latex_package_tkz_graph''" and f = "''tkz-graph.sty''"
         and proc = "\<lparr>returncode = 0, stdout = ''/texmf/tkz-graph.sty\<newline>''\<rparr>"]
       w e c r
  show ?thesis
    by (simp add: strip_tkz)
qed

end
